theory Spec2Isabelle
  imports Main
begin

section \<open>Documents, request bodies and responses\<close>

text \<open>
  The backend keeps three collections of documents: locations (a parent-pointer tree),
  users and venues. A collection is the list of its documents in insertion order, which
  is the order in which a query returns them. An ObjectId is an opaque identifier; it is
  a 24-digit hexadecimal string in the source, hence never the empty string, and a
  reference field that is present is truthy. A handler that passes the ids of a
  request only to the storage engine takes them as ObjectIds, the way the engine casts
  them. \<open>updateLocation\<close> compares the id of the path and the \<open>parent\<close> of the body as
  strings, so it takes both as the request spells them (\<open>castObjectId\<close> below is the
  engine's cast). The storage engine keeps the \<open>_id\<close> of the documents of one
  collection distinct; theorems that depend on it assume it.
  The timestamps that the schemas add (\<open>createdAt\<close>, \<open>updatedAt\<close>) are left out.
\<close>

type_synonym oid = nat

record location =
  loc_id :: oid
  loc_name :: string
  loc_code :: string
  loc_parent :: "oid option"

record user =
  user_id :: oid
  user_name :: string
  user_phone :: string
  user_email :: string
  user_role :: string
  user_location :: oid

record venue =
  venue_id :: oid
  placeName :: string
  capacity :: int
  venue_location :: oid
  createdBy :: oid

record store =
  locations :: "location list"
  users :: "user list"
  venues :: "venue list"

text \<open>
  A request body carries typed fields, each present or absent (\<open>undefined\<close>). The
  capacity of a venue is an integral JSON number. The \<open>parent\<close> of a location body is
  an ObjectId for \<open>createLocation\<close> and the string of the request for
  \<open>updateLocation\<close>.
\<close>

record 'p location_body =
  lb_name :: "string option"
  lb_code :: "string option"
  lb_parent :: "'p option"

record user_body =
  ub_name :: "string option"
  ub_phone :: "string option"
  ub_email :: "string option"
  ub_role :: "string option"
  ub_location :: "oid option"

record venue_body =
  vb_placeName :: "string option"
  vb_capacity :: "int option"
  vb_location :: "oid option"

text \<open>
  A response is \<open>res.status(n).json(...)\<close>: either \<open>{success: false, message}\<close> or
  \<open>{success: true, ...}\<close> with a payload.
\<close>

datatype 'a response = Failure nat string | Success nat 'a

fun status :: "'a response \<Rightarrow> nat" where
  "status (Failure n msg) = n"
| "status (Success n payload) = n"

text \<open>What \<open>populate(path, 'name code')\<close> and \<open>populate(path, 'name email role')\<close> put in
  place of a reference: the selected fields of the document referred to, or \<open>null\<close>.\<close>

record location_ref =
  ref_id :: oid
  ref_name :: string
  ref_code :: string

record user_ref =
  uref_id :: oid
  uref_name :: string
  uref_email :: string
  uref_role :: string

type_synonym populated_location = "location \<times> location_ref option"
type_synonym populated_user = "user \<times> location_ref option"
type_synonym populated_venue = "venue \<times> location_ref option \<times> user_ref option"

text \<open>The payload of the two by-location list queries; the user query has no
  \<open>location\<close> key.\<close>

record 'a listing =
  count :: nat
  locationsSearched :: nat
  searched_location :: "location_ref option"
  data :: "'a list"

record request =
  x_user_id :: "oid option"
  params_id :: "oid option"
  req_user :: "populated_user option"

section \<open>Strings of the schemas: trim, case, the email pattern\<close>

definition is_space :: "char \<Rightarrow> bool" where
  "is_space c = (c \<in> set [CHR '' '', CHR 0x09, CHR 0x0A, CHR 0x0B, CHR 0x0C, CHR 0x0D])"

definition trim :: "string \<Rightarrow> string" where
  "trim s = rev (dropWhile is_space (rev (dropWhile is_space s)))"

definition toUpperCase :: "string \<Rightarrow> string" where
  "toUpperCase s =
     map (\<lambda>c. let n = (of_char c :: nat) in if 97 \<le> n \<and> n \<le> 122 then char_of (n - 32) else c) s"

definition toLowerCase :: "string \<Rightarrow> string" where
  "toLowerCase s =
     map (\<lambda>c. let n = (of_char c :: nat) in if 65 \<le> n \<and> n \<le> 90 then char_of (n + 32) else c) s"

fun join :: "string \<Rightarrow> string list \<Rightarrow> string" where
  "join sep [] = []"
| "join sep [x] = x"
| "join sep (x # y # ys) = x @ sep @ join sep (y # ys)"

text \<open>
  The \<open>match\<close> validator of the user schema tests the email against
  \<^verbatim>\<open>/^\w+([\.-]?\w+)*@\w+([\.-]?\w+)*(\.\w{2,3})+$/\<close>. The pattern is anchored at both
  ends, so the test is membership in its language, decided here by derivatives.
\<close>

datatype cset = WordChar | OneOf "char list"

fun in_cset :: "cset \<Rightarrow> char \<Rightarrow> bool" where
  "in_cset WordChar c =
     (let n = (of_char c :: nat) in
      (48 \<le> n \<and> n \<le> 57) \<or> (65 \<le> n \<and> n \<le> 90) \<or> (97 \<le> n \<and> n \<le> 122) \<or> n = 95)"
| "in_cset (OneOf cs) c = (c \<in> set cs)"

datatype rexp = Zero | One | Atom cset | Alt rexp rexp | Seq rexp rexp | Star rexp

fun nullable :: "rexp \<Rightarrow> bool" where
  "nullable Zero = False"
| "nullable One = True"
| "nullable (Atom a) = False"
| "nullable (Alt r s) = (nullable r \<or> nullable s)"
| "nullable (Seq r s) = (nullable r \<and> nullable s)"
| "nullable (Star r) = True"

fun deriv :: "char \<Rightarrow> rexp \<Rightarrow> rexp" where
  "deriv c Zero = Zero"
| "deriv c One = Zero"
| "deriv c (Atom a) = (if in_cset a c then One else Zero)"
| "deriv c (Alt r s) = Alt (deriv c r) (deriv c s)"
| "deriv c (Seq r s) =
     (if nullable r then Alt (Seq (deriv c r) s) (deriv c s) else Seq (deriv c r) s)"
| "deriv c (Star r) = Seq (deriv c r) (Star r)"

definition matches :: "rexp \<Rightarrow> string \<Rightarrow> bool" where
  "matches r s = nullable (fold deriv s r)"

definition word1 :: rexp where
  "word1 = Seq (Atom WordChar) (Star (Atom WordChar))"

definition dotted_words :: rexp where
  "dotted_words = Seq word1 (Star (Seq (Alt One (Atom (OneOf ''.-''))) word1))"

definition top_level :: rexp where
  "top_level =
     Seq (Atom (OneOf ''.'')) (Seq (Atom WordChar) (Seq (Atom WordChar) (Alt One (Atom WordChar))))"

definition email_pattern :: rexp where
  "email_pattern =
     Seq dotted_words (Seq (Atom (OneOf ''@'')) (Seq dotted_words (Seq top_level (Star top_level))))"

section \<open>The storage engine, as the schemas configure it\<close>

text \<open>
  The storage engine (Mongoose over MongoDB) is outside the repository. Its operations
  are modelled by what the three schemas declare: setters (\<open>trim\<close>, \<open>uppercase\<close>,
  \<open>lowercase\<close>) run first, then the validators (\<open>required\<close>, \<open>min\<close>, \<open>match\<close>,
  \<open>enum\<close>), then the write, which a unique index can refuse. An update leaves a field
  that the update document does not define as it is. The id of a new document is
  chosen by the engine and is given to the model as \<open>new_id\<close>.
\<close>

datatype db_error = ValidationError string | DuplicateKey string

fun update_first :: "('a \<Rightarrow> bool) \<Rightarrow> 'a \<Rightarrow> 'a list \<Rightarrow> 'a list" where
  "update_first P y [] = []"
| "update_first P y (x # xs) = (if P x then y # xs else x # update_first P y xs)"

fun delete_first :: "('a \<Rightarrow> bool) \<Rightarrow> 'a list \<Rightarrow> 'a list" where
  "delete_first P [] = []"
| "delete_first P (x # xs) = (if P x then xs else x # delete_first P xs)"

definition or_keep :: "'a option \<Rightarrow> 'a \<Rightarrow> 'a" where
  "or_keep new old = (case new of None \<Rightarrow> old | Some v \<Rightarrow> v)"

text \<open>
  The cast of the engine from the string of a request to an ObjectId: a string of 24
  hexadecimal digits, in upper or lower case, is the ObjectId with that value; every
  other string is refused (a \<open>CastError\<close>).
\<close>

definition hex_digit :: "char \<Rightarrow> nat option" where
  "hex_digit c =
     (let n = (of_char c :: nat) in
      if 48 \<le> n \<and> n \<le> 57 then Some (n - 48)
      else if 97 \<le> n \<and> n \<le> 102 then Some (n - 87)
      else if 65 \<le> n \<and> n \<le> 70 then Some (n - 55)
      else None)"

fun hex_value :: "nat \<Rightarrow> string \<Rightarrow> nat option" where
  "hex_value acc [] = Some acc"
| "hex_value acc (c # cs) =
     (case hex_digit c of None \<Rightarrow> None | Some d \<Rightarrow> hex_value (16 * acc + d) cs)"

definition castObjectId :: "string \<Rightarrow> oid option" where
  "castObjectId s = (if length s = 24 then hex_value 0 s else None)"

subsection \<open>Location\<close>

definition Location_findById :: "location list \<Rightarrow> oid \<Rightarrow> location option" where
  "Location_findById locs i = find (\<lambda>l. loc_id l = i) locs"

definition Location_find_parent :: "location list \<Rightarrow> oid \<Rightarrow> location list" where
  "Location_find_parent locs pid = filter (\<lambda>l. loc_parent l = Some pid) locs"

definition Location_countDocuments_parent :: "location list \<Rightarrow> oid \<Rightarrow> nat" where
  "Location_countDocuments_parent locs pid = length (Location_find_parent locs pid)"

definition Location_create ::
  "location list \<Rightarrow> oid \<Rightarrow> string \<Rightarrow> string \<Rightarrow> oid option \<Rightarrow> db_error + (location list \<times> location)" where
  "Location_create locs new_id name code parent =
     (let doc = \<lparr>loc_id = new_id, loc_name = trim name, loc_code = toUpperCase (trim code),
                 loc_parent = parent\<rparr>
      in if loc_name doc = [] then Inl (ValidationError ''Location name is required'')
         else if loc_code doc = [] then Inl (ValidationError ''Location code is required'')
         else if loc_code doc \<in> set (map loc_code locs)
           then Inl (DuplicateKey ''E11000 duplicate key error'')
         else Inr (locs @ [doc], doc))"

definition Location_findByIdAndUpdate ::
  "location list \<Rightarrow> oid \<Rightarrow> string option \<Rightarrow> string option \<Rightarrow> oid option \<Rightarrow>
   db_error + (location list \<times> location option)" where
  "Location_findByIdAndUpdate locs i name code parent =
     (let name' = map_option trim name; code' = map_option (\<lambda>c. toUpperCase (trim c)) code
      in if name' = Some [] then Inl (ValidationError ''Location name is required'')
         else if code' = Some [] then Inl (ValidationError ''Location code is required'')
         else case Location_findById locs i of
             None \<Rightarrow> Inr (locs, None)
           | Some old \<Rightarrow>
               (let doc = old\<lparr>loc_name := or_keep name' (loc_name old),
                              loc_code := or_keep code' (loc_code old),
                              loc_parent := (case parent of None \<Rightarrow> loc_parent old | Some p \<Rightarrow> Some p)\<rparr>
                in if loc_code doc \<in> set (map loc_code (filter (\<lambda>l. loc_id l \<noteq> i) locs))
                   then Inl (DuplicateKey ''E11000 duplicate key error'')
                   else Inr (update_first (\<lambda>l. loc_id l = i) doc locs, Some doc)))"

definition Location_findByIdAndDelete ::
  "location list \<Rightarrow> oid \<Rightarrow> location list \<times> location option" where
  "Location_findByIdAndDelete locs i =
     (case Location_findById locs i of
        None \<Rightarrow> (locs, None)
      | Some l \<Rightarrow> (delete_first (\<lambda>l. loc_id l = i) locs, Some l))"

definition populate_location :: "location list \<Rightarrow> oid \<Rightarrow> location_ref option" where
  "populate_location locs i =
     map_option (\<lambda>l. \<lparr>ref_id = loc_id l, ref_name = loc_name l, ref_code = loc_code l\<rparr>)
       (Location_findById locs i)"

subsection \<open>User\<close>

definition User_findById :: "user list \<Rightarrow> oid \<Rightarrow> user option" where
  "User_findById us i = find (\<lambda>u. user_id u = i) us"

definition User_create ::
  "user list \<Rightarrow> oid \<Rightarrow> string \<Rightarrow> string \<Rightarrow> string \<Rightarrow> string \<Rightarrow> oid \<Rightarrow> db_error + (user list \<times> user)" where
  "User_create us new_id name phone email role location =
     (let doc = \<lparr>user_id = new_id, user_name = trim name, user_phone = trim phone,
                 user_email = toLowerCase (trim email), user_role = role,
                 user_location = location\<rparr>
      in if user_name doc = [] then Inl (ValidationError ''User name is required'')
         else if user_phone doc = [] then Inl (ValidationError ''Phone number is required'')
         else if user_email doc = [] then Inl (ValidationError ''Email is required'')
         else if \<not> matches email_pattern (user_email doc)
           then Inl (ValidationError ''Please provide a valid email address'')
         else if role \<notin> set [''Admin'', ''Organizer'', ''Attend'']
           then Inl (ValidationError ''Role must be either Admin, Organizer, or Attend'')
         else if user_email doc \<in> set (map user_email us)
           then Inl (DuplicateKey ''E11000 duplicate key error'')
         else Inr (us @ [doc], doc))"

definition populate_user :: "location list \<Rightarrow> user \<Rightarrow> populated_user" where
  "populate_user locs u = (u, populate_location locs (user_location u))"

subsection \<open>Venue\<close>

definition Venue_findById :: "venue list \<Rightarrow> oid \<Rightarrow> venue option" where
  "Venue_findById vs i = find (\<lambda>v. venue_id v = i) vs"

definition Venue_create ::
  "venue list \<Rightarrow> oid \<Rightarrow> string \<Rightarrow> int \<Rightarrow> oid \<Rightarrow> oid \<Rightarrow> db_error + (venue list \<times> venue)" where
  "Venue_create vs new_id name cap location creator =
     (let doc = \<lparr>venue_id = new_id, placeName = trim name, capacity = cap,
                 venue_location = location, createdBy = creator\<rparr>
      in if placeName doc = [] then Inl (ValidationError ''Venue place name is required'')
         else if capacity doc < 1 then Inl (ValidationError ''Capacity must be at least 1'')
         else Inr (vs @ [doc], doc))"

definition Venue_findByIdAndUpdate ::
  "venue list \<Rightarrow> oid \<Rightarrow> string option \<Rightarrow> int option \<Rightarrow> oid option \<Rightarrow>
   db_error + (venue list \<times> venue option)" where
  "Venue_findByIdAndUpdate vs i name cap location =
     (let name' = map_option trim name
      in if name' = Some [] then Inl (ValidationError ''Venue place name is required'')
         else if (case cap of None \<Rightarrow> False | Some c \<Rightarrow> c < 1)
           then Inl (ValidationError ''Capacity must be at least 1'')
         else case Venue_findById vs i of
             None \<Rightarrow> Inr (vs, None)
           | Some old \<Rightarrow>
               (let doc = old\<lparr>placeName := or_keep name' (placeName old),
                              capacity := or_keep cap (capacity old),
                              venue_location := or_keep location (venue_location old)\<rparr>
                in Inr (update_first (\<lambda>v. venue_id v = i) doc vs, Some doc)))"

definition Venue_findByIdAndDelete :: "venue list \<Rightarrow> oid \<Rightarrow> venue list \<times> venue option" where
  "Venue_findByIdAndDelete vs i =
     (case Venue_findById vs i of
        None \<Rightarrow> (vs, None)
      | Some v \<Rightarrow> (delete_first (\<lambda>v. venue_id v = i) vs, Some v))"

definition populate_creator :: "user list \<Rightarrow> oid \<Rightarrow> user_ref option" where
  "populate_creator us i =
     map_option (\<lambda>u. \<lparr>uref_id = user_id u, uref_name = user_name u, uref_email = user_email u,
                       uref_role = user_role u\<rparr>)
       (User_findById us i)"

definition populate_venue :: "store \<Rightarrow> venue \<Rightarrow> populated_venue" where
  "populate_venue st v =
     (v, populate_location (locations st) (venue_location v), populate_creator (users st) (createdBy v))"

section \<open>The descendant resolver\<close>

text \<open>
  \<open>getAllChildLocationIds\<close> stands twice in the source, word for word, in the venue and
  in the user controller. It queries the direct children of a location and calls itself
  on each of them; on a cyclic parent graph it does not return, which is the value
  \<open>None\<close> here. The loop over the children is \<open>collect\<close>: it starts from
  \<open>[locationId]\<close> and appends what each child yields.
\<close>

fun collect :: "(oid \<Rightarrow> oid list option) \<Rightarrow> oid list \<Rightarrow> oid list \<Rightarrow> oid list option" where
  "collect f [] allLocationIds = Some allLocationIds"
| "collect f (child # rest) allLocationIds =
     Option.bind (f child) (\<lambda>childIds. collect f rest (allLocationIds @ childIds))"

lemma collect_mono [partial_function_mono]:
  assumes "\<And>c. mono_option (\<lambda>f. B f c)"
  shows "mono_option (\<lambda>f. collect (B f) cs acc)"
  by (induction cs arbitrary: acc) (auto intro!: partial_function_mono assms)

partial_function (option) getAllChildLocationIds :: "location list \<Rightarrow> oid \<Rightarrow> oid list option" where
  "getAllChildLocationIds locs locationId =
     (let children = Location_find_parent locs locationId in
      if length children = 0 then Some [locationId]
      else collect (getAllChildLocationIds locs) (map loc_id children) [locationId])"

declare getAllChildLocationIds.simps [code]

section \<open>The location controller\<close>

definition createLocation ::
  "store \<Rightarrow> oid \<Rightarrow> oid location_body \<Rightarrow> store \<times> location response" where
  "createLocation st new_id body =
     (case (lb_name body, lb_code body) of
        (Some name, Some code) \<Rightarrow>
          if name = [] \<or> code = [] then (st, Failure 400 ''Name and code are required'')
          else if (case lb_parent body of
                     None \<Rightarrow> False
                   | Some parent \<Rightarrow> Location_findById (locations st) parent = None)
            then (st, Failure 404 ''Parent location not found'')
          else (case Location_create (locations st) new_id name code (lb_parent body) of
                  Inr (locs', location) \<Rightarrow> (st\<lparr>locations := locs'\<rparr>, Success 201 location)
                | Inl (DuplicateKey msg) \<Rightarrow> (st, Failure 400 ''Location code already exists'')
                | Inl (ValidationError msg) \<Rightarrow> (st, Failure 500 msg))
      | _ \<Rightarrow> (st, Failure 400 ''Name and code are required''))"

text \<open>
  \<open>updateLocation\<close> tests \<open>parent === req.params.id\<close> on the two strings of the request,
  and only then hands them to the engine: \<open>findById(parent)\<close> and
  \<open>findByIdAndUpdate(req.params.id, ...)\<close> cast them, and a refused cast is thrown and
  answered 500 by the \<open>catch\<close>.
\<close>

definition updateLocation ::
  "store \<Rightarrow> string \<Rightarrow> string location_body \<Rightarrow> store \<times> populated_location response" where
  "updateLocation st i body =
     (case (case lb_parent body of
              None \<Rightarrow> None
            | Some parent \<Rightarrow>
                if parent = [] then None
                else if parent = i
                  then Some (Failure 400 ''Location cannot be its own parent'')
                else (case castObjectId parent of
                        None \<Rightarrow> Some (Failure 500 ''Cast to ObjectId failed'')
                      | Some p \<Rightarrow>
                          if Location_findById (locations st) p = None
                          then Some (Failure 404 ''Parent location not found'')
                          else None)) of
        Some r \<Rightarrow> (st, r)
      | None \<Rightarrow>
          (case (castObjectId i,
                 case lb_parent body of
                   None \<Rightarrow> Some None
                 | Some parent \<Rightarrow> map_option Some (castObjectId parent)) of
             (Some t, Some parent') \<Rightarrow>
               (case Location_findByIdAndUpdate (locations st) t (lb_name body) (lb_code body)
                       parent' of
                  Inr (locs', Some location) \<Rightarrow>
                    (st\<lparr>locations := locs'\<rparr>,
                     Success 200
                       (location, Option.bind (loc_parent location) (populate_location locs')))
                | Inr (locs', None) \<Rightarrow> (st, Failure 404 ''Location not found'')
                | Inl (DuplicateKey msg) \<Rightarrow> (st, Failure 400 ''Location code already exists'')
                | Inl (ValidationError msg) \<Rightarrow> (st, Failure 500 msg))
           | _ \<Rightarrow> (st, Failure 500 ''Cast to ObjectId failed'')))"

definition deleteLocation :: "store \<Rightarrow> oid \<Rightarrow> store \<times> (string \<times> location) response" where
  "deleteLocation st i =
     (let childrenCount = Location_countDocuments_parent (locations st) i in
      if childrenCount > 0 then (st, Failure 400 ''Cannot delete location with child locations'')
      else (case Location_findByIdAndDelete (locations st) i of
              (locs', None) \<Rightarrow> (st, Failure 404 ''Location not found'')
            | (locs', Some location) \<Rightarrow>
                (st\<lparr>locations := locs'\<rparr>, Success 200 (''Location deleted successfully'', location))))"

section \<open>The user controller\<close>

definition createUser :: "store \<Rightarrow> oid \<Rightarrow> user_body \<Rightarrow> store \<times> populated_user response" where
  "createUser st new_id body =
     (case (ub_name body, ub_phone body, ub_email body, ub_role body, ub_location body) of
        (Some name, Some phone, Some email, Some role, Some location) \<Rightarrow>
          if name = [] \<or> phone = [] \<or> email = [] \<or> role = []
          then (st, Failure 400 ''All fields are required: name, phone, email, role, and location'')
          else (case User_create (users st) new_id name phone email role location of
                  Inr (users', user) \<Rightarrow>
                    (st\<lparr>users := users'\<rparr>, Success 201 (populate_user (locations st) user))
                | Inl (DuplicateKey msg) \<Rightarrow> (st, Failure 400 ''Email already exists'')
                | Inl (ValidationError msg) \<Rightarrow> (st, Failure 400 msg))
      | _ \<Rightarrow> (st, Failure 400 ''All fields are required: name, phone, email, role, and location''))"

definition getUsersByLocation :: "store \<Rightarrow> oid \<Rightarrow> populated_user listing response option" where
  "getUsersByLocation st locationId =
     (case getAllChildLocationIds (locations st) locationId of
        None \<Rightarrow> None
      | Some allLocationIds \<Rightarrow>
          (let found = filter (\<lambda>u. user_location u \<in> set allLocationIds) (users st) in
           Some (Success 200 \<lparr>count = length found, locationsSearched = length allLocationIds,
                              searched_location = None,
                              data = map (populate_user (locations st)) found\<rparr>)))"

section \<open>The access control chain\<close>

text \<open>A middleware step either ends the request with a response (\<open>Inl\<close>) or calls
  \<open>next()\<close> with the request, which it may have extended (\<open>Inr\<close>).\<close>

definition authenticateUser :: "store \<Rightarrow> request \<Rightarrow> 'a response + request" where
  "authenticateUser st req =
     (case x_user_id req of
        None \<Rightarrow> Inl (Failure 401 ''Authentication required. Please provide x-user-id header'')
      | Some userId \<Rightarrow>
          (case User_findById (users st) userId of
             None \<Rightarrow> Inl (Failure 401 ''Invalid user ID'')
           | Some u \<Rightarrow> Inr (req\<lparr>req_user := Some (populate_user (locations st) u)\<rparr>)))"

definition requireRole :: "string list \<Rightarrow> request \<Rightarrow> 'a response + request" where
  "requireRole roles req =
     (case req_user req of
        None \<Rightarrow> Inl (Failure 401 ''Authentication required'')
      | Some (u, l) \<Rightarrow>
          if user_role u \<notin> set roles
          then Inl (Failure 403 (''Access denied. Required role(s): '' @ join '', '' roles))
          else Inr req)"

definition checkVenueOwnership :: "store \<Rightarrow> request \<Rightarrow> 'a response + request" where
  "checkVenueOwnership st req =
     (case req_user req of
        None \<Rightarrow> Inl (Failure 401 ''Authentication required'')
      | Some (u, l) \<Rightarrow>
          if user_role u = ''Admin'' then Inr req
          else (case params_id req of
                  None \<Rightarrow> Inl (Failure 400 ''Venue ID is required'')
                | Some venueId \<Rightarrow>
                    (case Venue_findById (venues st) venueId of
                       None \<Rightarrow> Inl (Failure 404 ''Venue not found'')
                     | Some v \<Rightarrow>
                         if createdBy v \<noteq> user_id u
                         then Inl (Failure 403
                                ''Access denied. You can only modify venues you created'')
                         else Inr req)))"

section \<open>The venue controller and its routes\<close>

definition createVenue :: "store \<Rightarrow> request \<Rightarrow> oid \<Rightarrow> venue_body \<Rightarrow> store \<times> populated_venue response" where
  "createVenue st req new_id body =
     (case (vb_placeName body, vb_capacity body, vb_location body) of
        (Some name, Some cap, Some location) \<Rightarrow>
          if name = [] \<or> cap = 0
          then (st, Failure 400 ''All fields are required: placeName, capacity, and location'')
          else if Location_findById (locations st) location = None
            then (st, Failure 404 ''Location not found'')
          else (case req_user req of
                  None \<Rightarrow>
                    (st, Failure 500 ''Cannot read properties of undefined (reading '_id')'')
                | Some (caller, l) \<Rightarrow>
                    (case Venue_create (venues st) new_id name cap location (user_id caller) of
                       Inr (venues', v) \<Rightarrow>
                         (st\<lparr>venues := venues'\<rparr>,
                          Success 201 (populate_venue (st\<lparr>venues := venues'\<rparr>) v))
                     | Inl (ValidationError msg) \<Rightarrow> (st, Failure 400 msg)
                     | Inl (DuplicateKey msg) \<Rightarrow> (st, Failure 500 msg)))
      | _ \<Rightarrow> (st, Failure 400 ''All fields are required: placeName, capacity, and location''))"

definition getVenuesByLocation :: "store \<Rightarrow> oid \<Rightarrow> populated_venue listing response option" where
  "getVenuesByLocation st locationId =
     (case Location_findById (locations st) locationId of
        None \<Rightarrow> Some (Failure 404 ''Location not found'')
      | Some location \<Rightarrow>
          (case getAllChildLocationIds (locations st) locationId of
             None \<Rightarrow> None
           | Some allLocationIds \<Rightarrow>
               (let found = filter (\<lambda>v. venue_location v \<in> set allLocationIds) (venues st) in
                Some (Success 200 \<lparr>count = length found,
                        locationsSearched = length allLocationIds,
                        searched_location = Some \<lparr>ref_id = loc_id location,
                          ref_name = loc_name location, ref_code = loc_code location\<rparr>,
                        data = map (populate_venue st) found\<rparr>))))"

definition updateVenue :: "store \<Rightarrow> oid \<Rightarrow> venue_body \<Rightarrow> store \<times> populated_venue response" where
  "updateVenue st i body =
     (if (case vb_location body of
            None \<Rightarrow> False
          | Some location \<Rightarrow> Location_findById (locations st) location = None)
      then (st, Failure 404 ''Location not found'')
      else (case Venue_findByIdAndUpdate (venues st) i (vb_placeName body) (vb_capacity body)
                   (vb_location body) of
              Inr (venues', Some v) \<Rightarrow>
                (st\<lparr>venues := venues'\<rparr>, Success 200 (populate_venue (st\<lparr>venues := venues'\<rparr>) v))
            | Inr (venues', None) \<Rightarrow> (st, Failure 404 ''Venue not found'')
            | Inl (ValidationError msg) \<Rightarrow> (st, Failure 400 msg)
            | Inl (DuplicateKey msg) \<Rightarrow> (st, Failure 500 msg)))"

definition deleteVenue :: "store \<Rightarrow> oid \<Rightarrow> store \<times> (string \<times> venue) response" where
  "deleteVenue st i =
     (case Venue_findByIdAndDelete (venues st) i of
        (venues', None) \<Rightarrow> (st, Failure 404 ''Venue not found'')
      | (venues', Some v) \<Rightarrow>
          (st\<lparr>venues := venues'\<rparr>, Success 200 (''Venue deleted successfully'', v)))"

text \<open>
  The routes of the venue router that change venues. The router binds \<open>:id\<close> of the
  path into \<open>req.params.id\<close>; \<open>caller\<close> is the \<open>x-user-id\<close> header.
  \<^item> \<open>router.post('/', authenticateUser, requireRole('Admin', 'Organizer'), createVenue)\<close>
  \<^item> \<open>router.put('/:id', authenticateUser, checkVenueOwnership, updateVenue)\<close>
  \<^item> \<open>router.delete('/:id', authenticateUser, checkVenueOwnership, deleteVenue)\<close>
\<close>

definition post_venue ::
  "store \<Rightarrow> oid option \<Rightarrow> oid \<Rightarrow> venue_body \<Rightarrow> store \<times> populated_venue response" where
  "post_venue st caller new_id body =
     (case authenticateUser st \<lparr>x_user_id = caller, params_id = None, req_user = None\<rparr> of
        Inl r \<Rightarrow> (st, r)
      | Inr req \<Rightarrow>
          (case requireRole [''Admin'', ''Organizer''] req of
             Inl r \<Rightarrow> (st, r)
           | Inr req' \<Rightarrow> createVenue st req' new_id body))"

definition put_venue ::
  "store \<Rightarrow> oid option \<Rightarrow> oid \<Rightarrow> venue_body \<Rightarrow> store \<times> populated_venue response" where
  "put_venue st caller i body =
     (case authenticateUser st \<lparr>x_user_id = caller, params_id = Some i, req_user = None\<rparr> of
        Inl r \<Rightarrow> (st, r)
      | Inr req \<Rightarrow>
          (case checkVenueOwnership st req of
             Inl r \<Rightarrow> (st, r)
           | Inr req' \<Rightarrow> updateVenue st i body))"

definition delete_venue ::
  "store \<Rightarrow> oid option \<Rightarrow> oid \<Rightarrow> store \<times> (string \<times> venue) response" where
  "delete_venue st caller i =
     (case authenticateUser st \<lparr>x_user_id = caller, params_id = Some i, req_user = None\<rparr> of
        Inl r \<Rightarrow> (st, r)
      | Inr req \<Rightarrow>
          (case checkVenueOwnership st req of
             Inl r \<Rightarrow> (st, r)
           | Inr req' \<Rightarrow> deleteVenue st i))"

section \<open>The location tree\<close>

text \<open>
  \<open>parent_rel\<close> holds the pair \<open>(c, p)\<close> when a location with id \<open>c\<close> has parent \<open>p\<close>;
  the tree invariant of the data model is that it has no cycle. \<open>subtree locs root\<close> is
  \<open>root\<close> together with every location whose parent chain reaches \<open>root\<close>.
\<close>

definition parent_rel :: "location list \<Rightarrow> (oid \<times> oid) set" where
  "parent_rel locs = {(c, p). \<exists>l \<in> set locs. loc_id l = c \<and> loc_parent l = Some p}"

definition subtree :: "location list \<Rightarrow> oid \<Rightarrow> oid set" where
  "subtree locs root =
     insert root {c. (\<exists>l \<in> set locs. loc_id l = c) \<and> (c, root) \<in> (parent_rel locs)\<^sup>+}"

section \<open>An example store\<close>

text \<open>The locations are the example of the specification: Rwanda is a root, Kigali lies
  in Rwanda and Kicukiro in Kigali.\<close>

definition rw :: location where
  "rw = \<lparr>loc_id = 1, loc_name = ''Rwanda'', loc_code = ''RW'', loc_parent = None\<rparr>"

definition kigali :: location where
  "kigali = \<lparr>loc_id = 2, loc_name = ''Kigali'', loc_code = ''KGL'', loc_parent = Some 1\<rparr>"

definition kicukiro :: location where
  "kicukiro = \<lparr>loc_id = 3, loc_name = ''Kicukiro'', loc_code = ''KCK'', loc_parent = Some 2\<rparr>"

definition alice :: user where
  "alice = \<lparr>user_id = 10, user_name = ''Alice'', user_phone = ''0781'',
             user_email = ''alice@example.com'', user_role = ''Admin'', user_location = 1\<rparr>"

definition oscar :: user where
  "oscar = \<lparr>user_id = 11, user_name = ''Oscar'', user_phone = ''0782'',
             user_email = ''oscar@example.com'', user_role = ''Organizer'', user_location = 2\<rparr>"

definition olive :: user where
  "olive = \<lparr>user_id = 12, user_name = ''Olive'', user_phone = ''0783'',
             user_email = ''olive@example.com'', user_role = ''Organizer'', user_location = 3\<rparr>"

definition abel :: user where
  "abel = \<lparr>user_id = 13, user_name = ''Abel'', user_phone = ''0784'',
            user_email = ''abel@example.com'', user_role = ''Attend'', user_location = 3\<rparr>"

definition arena :: venue where
  "arena = \<lparr>venue_id = 20, placeName = ''Arena'', capacity = 500, venue_location = 1,
             createdBy = 11\<rparr>"

definition hall :: venue where
  "hall = \<lparr>venue_id = 21, placeName = ''Hall'', capacity = 80, venue_location = 3,
            createdBy = 12\<rparr>"

definition rwanda :: store where
  "rwanda = \<lparr>locations = [rw, kigali, kicukiro], users = [alice, oscar, olive, abel],
              venues = [arena, hall]\<rparr>"

text \<open>A store with one location, whose id has a letter among its hexadecimal digits
  (\<open>ab\<close> is 171).\<close>

definition gasabo :: location where
  "gasabo = \<lparr>loc_id = 171, loc_name = ''Gasabo'', loc_code = ''GSB'', loc_parent = None\<rparr>"

definition hills :: store where
  "hills = \<lparr>locations = [gasabo], users = [], venues = []\<rparr>"

definition zed :: user_body where
  "zed = \<lparr>ub_name = Some ''Zed'', ub_phone = Some ''0785'', ub_email = Some ''Zed@Example.com'',
           ub_role = Some ''Attend'', ub_location = Some 99\<rparr>"

lemmas example_defs =
  rwanda_def rw_def kigali_def kicukiro_def alice_def oscar_def olive_def abel_def arena_def
  hall_def

section \<open>Facts about the location tree\<close>

lemma finite_parent_rel: "finite (parent_rel locs)"
proof -
  have "parent_rel locs \<subseteq> (\<lambda>l. (loc_id l, the (loc_parent l))) ` set locs"
    by (auto simp: parent_rel_def image_iff)
  then show ?thesis by (rule finite_subset) simp
qed

lemma single_valued_parent_rel:
  assumes "distinct (map loc_id locs)"
  shows "single_valued (parent_rel locs)"
proof (rule single_valuedI)
  fix c p q
  assume "(c, p) \<in> parent_rel locs" "(c, q) \<in> parent_rel locs"
  then obtain l l' where l: "l \<in> set locs" "loc_id l = c" "loc_parent l = Some p"
    and l': "l' \<in> set locs" "loc_id l' = c" "loc_parent l' = Some q"
    by (auto simp: parent_rel_def)
  from assms have "inj_on loc_id (set locs)" by (simp add: distinct_map)
  with l l' have "l = l'" by (auto dest: inj_onD)
  with l l' show "p = q" by simp
qed

lemma acyclic_parent_rel_younger:
  assumes "\<forall>l \<in> set locs. \<forall>p. loc_parent l = Some p \<longrightarrow> p < loc_id l"
  shows "acyclic (parent_rel locs)"
proof -
  have "parent_rel locs \<subseteq> less_than\<inverse>"
    using assms by (auto simp: parent_rel_def)
  moreover have "acyclic (less_than\<inverse> :: (nat \<times> nat) set)"
    by (simp add: acyclic_converse wf_acyclic)
  ultimately show ?thesis by (rule acyclic_subset [rotated])
qed

lemma below_subtree: "{y. (y, root) \<in> (parent_rel locs)\<^sup>*} = subtree locs root"
proof -
  have "\<exists>l \<in> set locs. loc_id l = c" if "(c, root) \<in> (parent_rel locs)\<^sup>+" for c
    using that by (induction rule: trancl_induct) (auto simp: parent_rel_def)
  then show ?thesis
    by (auto simp: subtree_def rtrancl_eq_or_trancl)
qed

lemma below_step:
  "{y. (y, x) \<in> r\<^sup>*} = insert x (\<Union>c \<in> {c. (c, x) \<in> r}. {y. (y, c) \<in> r\<^sup>*})"
  by (auto elim: rtranclE intro: rtrancl_into_rtrancl)

lemma siblings_disjoint:
  assumes sv: "single_valued r" and ac: "acyclic r"
    and c: "(c, x) \<in> r" and d: "(d, x) \<in> r" and ne: "c \<noteq> d"
  shows "{y. (y, c) \<in> r\<^sup>*} \<inter> {y. (y, d) \<in> r\<^sup>*} = {}"
proof -
  have one: False
    if cd: "(c, d) \<in> r\<^sup>*" and c: "(c, x) \<in> r" and d: "(d, x) \<in> r" and ne: "c \<noteq> d" for c d
  proof -
    from cd ne obtain z where z: "(c, z) \<in> r" "(z, d) \<in> r\<^sup>*"
      by (auto elim: converse_rtranclE)
    from sv z(1) c have "z = x" by (auto dest: single_valuedD)
    with z(2) d have "(x, x) \<in> r\<^sup>+" by (auto intro: rtrancl_into_trancl1)
    with ac show False by (auto simp: acyclic_def)
  qed
  show ?thesis
  proof (rule ccontr)
    assume "{y. (y, c) \<in> r\<^sup>*} \<inter> {y. (y, d) \<in> r\<^sup>*} \<noteq> {}"
    then obtain y where "(y, c) \<in> r\<^sup>*" "(y, d) \<in> r\<^sup>*" by auto
    with sv have "(c, d) \<in> r\<^sup>* \<or> (d, c) \<in> r\<^sup>*" by (rule single_valued_confluent)
    then show False using one[of c d] one[of d c] c d ne by auto
  qed
qed

lemma rwanda_acyclic: "acyclic (parent_rel (locations rwanda))"
  by (rule acyclic_parent_rel_younger) (simp add: example_defs)

lemma rwanda_distinct: "distinct (map loc_id (locations rwanda))"
  by (simp add: example_defs)

section \<open>The resolver returns the subtree\<close>

lemma findById_Some_iff:
  "(\<exists>l. Location_findById locs i = Some l) \<longleftrightarrow> i \<in> loc_id ` set locs"
  by (cases "Location_findById locs i") (auto simp: Location_findById_def find_None_iff dest: find_Some_iff[THEN iffD1])

lemma findById_None_iff:
  "Location_findById locs i = None \<longleftrightarrow> i \<notin> loc_id ` set locs"
  by (auto simp: Location_findById_def find_None_iff)

lemma set_children:
  "set (map loc_id (Location_find_parent locs x)) = {c. (c, x) \<in> parent_rel locs}"
  by (auto simp: Location_find_parent_def parent_rel_def)

lemma distinct_children:
  "distinct (map loc_id locs) \<Longrightarrow> distinct (map loc_id (Location_find_parent locs x))"
  by (simp add: Location_find_parent_def distinct_map_filter)

lemma collect_Some:
  "\<forall>c \<in> set cs. f c = Some (g c) \<Longrightarrow> collect f cs acc = Some (acc @ concat (map g cs))"
  by (induction cs arbitrary: acc) auto

lemma distinct_concat_map:
  "distinct cs \<Longrightarrow> \<forall>c \<in> set cs. distinct (g c) \<Longrightarrow>
   \<forall>c \<in> set cs. \<forall>d \<in> set cs. c \<noteq> d \<longrightarrow> set (g c) \<inter> set (g d) = {} \<Longrightarrow>
   distinct (concat (map g cs))"
  by (induction cs) auto

lemma getAll_unfold:
  "getAllChildLocationIds locs x =
     collect (getAllChildLocationIds locs) (map loc_id (Location_find_parent locs x)) [x]"
  by (subst getAllChildLocationIds.simps) (simp add: Let_def)

text \<open>On an acyclic parent graph the resolver returns, by well-founded induction along
  the parent pointers: every child of \<open>x\<close> is below \<open>x\<close>.\<close>

lemma getAll_below:
  assumes ac: "acyclic (parent_rel locs)"
  shows "\<exists>xs. getAllChildLocationIds locs root = Some xs \<and>
           set xs = {y. (y, root) \<in> (parent_rel locs)\<^sup>*} \<and>
           (distinct (map loc_id locs) \<longrightarrow> distinct xs)"
proof -
  let ?r = "parent_rel locs"
  have "wf ?r" using finite_parent_rel ac by (rule finite_acyclic_wf)
  then show ?thesis
  proof (induction root rule: wf_induct_rule)
    case (less x)
    let ?cs = "map loc_id (Location_find_parent locs x)"
    have "\<forall>c \<in> set ?cs. \<exists>ys. getAllChildLocationIds locs c = Some ys \<and>
        set ys = {y. (y, c) \<in> ?r\<^sup>*} \<and> (distinct (map loc_id locs) \<longrightarrow> distinct ys)"
      unfolding set_children using less by blast
    then obtain g where IH: "\<forall>c \<in> set ?cs. getAllChildLocationIds locs c = Some (g c) \<and>
        set (g c) = {y. (y, c) \<in> ?r\<^sup>*} \<and> (distinct (map loc_id locs) \<longrightarrow> distinct (g c))"
      by (rule bchoice [THEN exE])
    have IH1: "\<forall>c \<in> set ?cs. getAllChildLocationIds locs c = Some (g c)"
      using IH by blast
    have IH2: "\<And>c. c \<in> set ?cs \<Longrightarrow> set (g c) = {y. (y, c) \<in> ?r\<^sup>*}"
      using IH by blast
    have "collect (getAllChildLocationIds locs) ?cs [x] = Some ([x] @ concat (map g ?cs))"
      using IH1 by (rule collect_Some)
    then have res: "getAllChildLocationIds locs x = Some (x # concat (map g ?cs))"
      by (subst getAll_unfold) simp
    have "set (concat (map g ?cs)) = (\<Union>c \<in> {c. (c, x) \<in> ?r}. {y. (y, c) \<in> ?r\<^sup>*})"
      unfolding set_children [symmetric] using IH2 by auto
    then have st: "set (x # concat (map g ?cs)) = {y. (y, x) \<in> ?r\<^sup>*}"
      by (subst below_step) simp
    have di: "distinct (x # concat (map g ?cs))" if d: "distinct (map loc_id locs)"
    proof -
      have sv: "single_valued ?r" using d by (rule single_valued_parent_rel)
      have "x \<notin> set (g c)" if "c \<in> set ?cs" for c
      proof
        assume "x \<in> set (g c)"
        with IH2[OF that] have "(x, c) \<in> ?r\<^sup>*" by simp
        moreover from that have "(c, x) \<in> ?r" unfolding set_children by simp
        ultimately have "(x, x) \<in> ?r\<^sup>+" by (rule rtrancl_into_trancl1)
        with ac show False by (auto simp: acyclic_def)
      qed
      moreover have "distinct (concat (map g ?cs))"
      proof (rule distinct_concat_map)
        show "distinct ?cs" using d by (rule distinct_children)
        show "\<forall>c\<in>set ?cs. distinct (g c)" using IH d by blast
        show "\<forall>c\<in>set ?cs. \<forall>d\<in>set ?cs. c \<noteq> d \<longrightarrow> set (g c) \<inter> set (g d) = {}"
        proof (intro ballI impI)
          fix c e
          assume ce: "c \<in> set ?cs" "e \<in> set ?cs" "c \<noteq> e"
          then have "(c, x) \<in> ?r" "(e, x) \<in> ?r" unfolding set_children by simp_all
          from siblings_disjoint[OF sv ac this ce(3)] IH2[OF ce(1)] IH2[OF ce(2)]
          show "set (g c) \<inter> set (g e) = {}" by simp
        qed
      qed
      ultimately show ?thesis by auto
    qed
    from res st di show ?case by blast
  qed
qed

lemma getAll_subtree:
  assumes "acyclic (parent_rel locs)" and "distinct (map loc_id locs)"
  obtains ids where "getAllChildLocationIds locs root = Some ids"
    and "set ids = subtree locs root" and "distinct ids"
  using getAll_below [OF assms(1), of root] assms(2) unfolding below_subtree by blast

lemma rwanda_resolved: "getAllChildLocationIds (locations rwanda) 1 = Some [1, 2, 3]"
  by (simp add: example_defs getAllChildLocationIds.simps Location_find_parent_def)

lemma rwanda_subtree: "subtree (locations rwanda) 1 = {1, 2, 3}"
proof -
  from rwanda_acyclic rwanda_distinct obtain ids
    where ids: "getAllChildLocationIds (locations rwanda) 1 = Some ids"
      and sub: "set ids = subtree (locations rwanda) 1"
    by (rule getAll_subtree)
  from ids have "ids = [1, 2, 3]" unfolding rwanda_resolved by simp
  then have "set ids = {1, 2, 3}" by simp
  then show ?thesis unfolding sub .
qed

text \<open>
  Claim C1. On every location store whose parent graph is acyclic (and whose documents
  have distinct ids, as the storage engine guarantees), the resolver returns for every
  \<open>rootId\<close>, and its result lists exactly \<open>rootId\<close> and the locations whose parent chain
  reaches \<open>rootId\<close>: none is left out and none is listed twice.
\<close>

theorem getAllChildLocationIds_exact:
  assumes "acyclic (parent_rel locs)" and "distinct (map loc_id locs)"
  shows "\<exists>ids. getAllChildLocationIds locs rootId = Some ids \<and>
           set ids = subtree locs rootId \<and> distinct ids"
  using getAll_subtree [OF assms] by metis

theorem getAllChildLocationIds_exact_witness:
  "acyclic (parent_rel (locations rwanda)) \<and> distinct (map loc_id (locations rwanda)) \<and>
   getAllChildLocationIds (locations rwanda) 1 = Some [1, 2, 3] \<and>
   subtree (locations rwanda) 1 = {1, 2, 3}"
proof -
  have run: "getAllChildLocationIds (locations rwanda) 1 = Some [1, 2, 3]"
    by (simp add: example_defs getAllChildLocationIds.simps Location_find_parent_def)
  from getAllChildLocationIds_exact [OF rwanda_acyclic rwanda_distinct, of 1] run
  have "subtree (locations rwanda) 1 = {1, 2, 3}" by auto
  with run rwanda_acyclic rwanda_distinct show ?thesis by simp
qed

text \<open>
  Claim C2. On every store whose location graph is acyclic and which holds a location
  with id \<open>L\<close>, the venues-by-location query answers 200 with exactly the venues whose
  \<open>location\<close> lies in the subtree of \<open>L\<close> (each populated, in store order), and
  \<open>locationsSearched\<close> is the number of locations of that subtree.
\<close>

theorem getVenuesByLocation_exact:
  assumes "acyclic (parent_rel (locations st))" and "distinct (map loc_id (locations st))"
    and "L \<in> loc_id ` set (locations st)"
  shows "\<exists>r. getVenuesByLocation st L = Some (Success 200 r) \<and>
           data r = map (populate_venue st)
                      (filter (\<lambda>v. venue_location v \<in> subtree (locations st) L) (venues st)) \<and>
           count r = length (data r) \<and>
           locationsSearched r = card (subtree (locations st) L)"
proof -
  from assms(3) obtain l where l: "Location_findById (locations st) L = Some l"
    by (cases "Location_findById (locations st) L") (auto simp: findById_None_iff)
  from assms(1,2) obtain ids where ids: "getAllChildLocationIds (locations st) L = Some ids"
    "set ids = subtree (locations st) L" "distinct ids"
    by (rule getAll_subtree)
  from ids(2,3) have "length ids = card (subtree (locations st) L)"
    by (metis distinct_card)
  with l ids(1,2) show ?thesis
    by (simp add: getVenuesByLocation_def Let_def)
qed

theorem getVenuesByLocation_exact_witness:
  "acyclic (parent_rel (locations rwanda)) \<and> distinct (map loc_id (locations rwanda)) \<and>
   (1::nat) \<in> loc_id ` set (locations rwanda) \<and>
   (\<exists>r. getVenuesByLocation rwanda 1 = Some (Success 200 r) \<and>
        data r = map (populate_venue rwanda) (venues rwanda) \<and> locationsSearched r = 3)"
proof -
  have here: "(1::nat) \<in> loc_id ` set (locations rwanda)" by (simp add: example_defs)
  have all: "filter (\<lambda>v. venue_location v \<in> {1, 2, 3}) (venues rwanda) = venues rwanda"
    by (simp add: example_defs)
  have three: "card {1, 2, 3 :: nat} = 3" by simp
  have "\<exists>r. getVenuesByLocation rwanda 1 = Some (Success 200 r) \<and>
        data r = map (populate_venue rwanda) (venues rwanda) \<and> locationsSearched r = 3"
    using getVenuesByLocation_exact [OF rwanda_acyclic rwanda_distinct here]
    unfolding rwanda_subtree all three by (elim exE conjE) (intro exI conjI)
  with rwanda_acyclic rwanda_distinct here show ?thesis by (intro conjI)
qed

section \<open>Self-parenting\<close>

text \<open>
  What the two handlers do for a \<open>parent\<close> that is the location itself. On update, a
  \<open>parent\<close> spelled as the id of the path is refused with 400 and the store stays as it
  is. On create the id of the new location is chosen by the store, so a \<open>parent\<close> equal
  to it is the id of no stored location: the request ends with 400 when name or code is
  missing and otherwise in the parent lookup with 404, and the store stays as it is.
\<close>

lemma updateLocation_same_string:
  "i \<noteq> [] \<Longrightarrow> lb_parent body = Some i \<Longrightarrow>
   updateLocation st i body = (st, Failure 400 ''Location cannot be its own parent'')"
  by (simp add: updateLocation_def)

lemma createLocation_own_id:
  assumes "new_id \<notin> loc_id ` set (locations st)" and "lb_parent body = Some new_id"
  shows "createLocation st new_id body =
        (st, if lb_name body \<in> {None, Some []} \<or> lb_code body \<in> {None, Some []}
             then Failure 400 ''Name and code are required''
             else Failure 404 ''Parent location not found'')"
proof -
  from assms have "Location_findById (locations st) new_id = None"
    by (simp add: findById_None_iff)
  with assms show ?thesis
    by (auto simp: createLocation_def split: option.splits)
qed

lemma castObjectId_ab:
  "castObjectId ''0000000000000000000000ab'' = Some 171"
  "castObjectId ''0000000000000000000000AB'' = Some 171"
  by (simp_all add: castObjectId_def hex_digit_def)

text \<open>
  Claim C3 says that every update of a location whose \<open>parent\<close> is the location's own id
  fails with 400 and leaves the store as it is. \<open>updateLocation\<close> makes the test on the
  strings of the request, and one ObjectId has more than one spelling: in the store
  \<open>hills\<close> the location with id \<open>...ab\<close> is updated with its own id as \<open>parent\<close>, spelled
  \<open>...AB\<close>. The two strings differ, both are cast to the id of the location, the parent
  lookup finds the location itself, and the request is answered 200 with the location
  stored as its own parent; the parent graph of the store then has a cycle.
\<close>

theorem updateLocation_self_parent_other_spelling:
  "''0000000000000000000000AB'' \<noteq> ''0000000000000000000000ab'' \<and>
   castObjectId ''0000000000000000000000ab'' = Some (loc_id gasabo) \<and>
   castObjectId ''0000000000000000000000AB'' = Some (loc_id gasabo) \<and>
   updateLocation hills ''0000000000000000000000ab''
     \<lparr>lb_name = Some ''Gasabo'', lb_code = Some ''GSB'',
      lb_parent = Some ''0000000000000000000000AB''\<rparr> =
     (hills\<lparr>locations := [gasabo\<lparr>loc_parent := Some (loc_id gasabo)\<rparr>]\<rparr>,
      Success 200 (gasabo\<lparr>loc_parent := Some (loc_id gasabo)\<rparr>,
                   Some \<lparr>ref_id = 171, ref_name = ''Gasabo'', ref_code = ''GSB''\<rparr>)) \<and>
   \<not> acyclic (parent_rel [gasabo\<lparr>loc_parent := Some (loc_id gasabo)\<rparr>])"
proof -
  have run: "updateLocation hills ''0000000000000000000000ab''
     \<lparr>lb_name = Some ''Gasabo'', lb_code = Some ''GSB'',
      lb_parent = Some ''0000000000000000000000AB''\<rparr> =
     (hills\<lparr>locations := [gasabo\<lparr>loc_parent := Some (loc_id gasabo)\<rparr>]\<rparr>,
      Success 200 (gasabo\<lparr>loc_parent := Some (loc_id gasabo)\<rparr>,
                   Some \<lparr>ref_id = 171, ref_name = ''Gasabo'', ref_code = ''GSB''\<rparr>))"
    by (simp add: updateLocation_def castObjectId_ab hills_def gasabo_def
        Location_findById_def Location_findByIdAndUpdate_def populate_location_def
        trim_def is_space_def toUpperCase_def or_keep_def Let_def)
  have "(171, 171) \<in> parent_rel [gasabo\<lparr>loc_parent := Some (loc_id gasabo)\<rparr>]"
    by (simp add: parent_rel_def gasabo_def)
  then have cyc: "\<not> acyclic (parent_rel [gasabo\<lparr>loc_parent := Some (loc_id gasabo)\<rparr>])"
    by (auto simp: acyclic_def)
  have id: "loc_id gasabo = 171" by (simp add: gasabo_def)
  from run cyc show ?thesis by (simp add: castObjectId_ab id)
qed

section \<open>Queries for a location that is not in the store\<close>

text \<open>
  Claim C10. When no location has id \<open>L\<close> and no location has parent \<open>L\<close>, the
  users-by-location query does not fail: it answers 200 with \<open>locationsSearched = 1\<close> and
  exactly the users whose \<open>location\<close> is \<open>L\<close> (none when every user refers to a stored
  location), while the venue query answers 404 for the same \<open>L\<close>.
\<close>

theorem getUsersByLocation_unknown_location:
  assumes "L \<notin> loc_id ` set (locations st)"
    and "Location_find_parent (locations st) L = []"
  shows "getUsersByLocation st L =
           Some (Success 200
             \<lparr>count = length (filter (\<lambda>u. user_location u = L) (users st)),
              locationsSearched = 1, searched_location = None,
              data = map (populate_user (locations st))
                       (filter (\<lambda>u. user_location u = L) (users st))\<rparr>) \<and>
         ((\<forall>u \<in> set (users st). user_location u \<in> loc_id ` set (locations st)) \<longrightarrow>
            filter (\<lambda>u. user_location u = L) (users st) = []) \<and>
         getVenuesByLocation st L = Some (Failure 404 ''Location not found'')"
proof (intro conjI)
  from assms(2) have "getAllChildLocationIds (locations st) L = Some [L]"
    by (subst getAllChildLocationIds.simps) simp
  then show "getUsersByLocation st L =
           Some (Success 200
             \<lparr>count = length (filter (\<lambda>u. user_location u = L) (users st)),
              locationsSearched = 1, searched_location = None,
              data = map (populate_user (locations st))
                       (filter (\<lambda>u. user_location u = L) (users st))\<rparr>)"
    by (simp add: getUsersByLocation_def Let_def)
  show "(\<forall>u \<in> set (users st). user_location u \<in> loc_id ` set (locations st)) \<longrightarrow>
           filter (\<lambda>u. user_location u = L) (users st) = []"
    using assms(1) by (auto simp: filter_empty_conv)
  from assms(1) have "Location_findById (locations st) L = None"
    by (simp add: findById_None_iff)
  then show "getVenuesByLocation st L = Some (Failure 404 ''Location not found'')"
    by (simp add: getVenuesByLocation_def)
qed

theorem getUsersByLocation_unknown_location_witness:
  "(99::nat) \<notin> loc_id ` set (locations rwanda) \<and>
   Location_find_parent (locations rwanda) 99 = [] \<and>
   getUsersByLocation rwanda 99 =
     Some (Success 200 \<lparr>count = 0, locationsSearched = 1, searched_location = None, data = []\<rparr>) \<and>
   getVenuesByLocation rwanda 99 = Some (Failure 404 ''Location not found'')"
proof -
  have a: "(99::nat) \<notin> loc_id ` set (locations rwanda)" by (simp add: example_defs)
  have b: "Location_find_parent (locations rwanda) 99 = []"
    by (simp add: example_defs Location_find_parent_def)
  have c: "filter (\<lambda>u. user_location u = 99) (users rwanda) = []" by (simp add: example_defs)
  from getUsersByLocation_unknown_location [OF a b] a b show ?thesis
    unfolding c by simp
qed

section \<open>Creating a user\<close>

lemma createUser_never_NotFound: "status (snd (createUser st new_id body)) \<noteq> 404"
  by (auto simp: createUser_def User_create_def Let_def
      split: option.splits sum.splits db_error.splits prod.splits)

text \<open>
  Claim C4 says that \<open>createUser\<close> answers 404 and creates nothing when \<open>location\<close> refers
  to no stored location. The code never looks the location up (\<open>createVenue\<close> and
  \<open>createLocation\<close> do look their references up): no location has id 99 in the example
  store, and the request below creates the user and answers 201, the populated location
  being \<open>null\<close>.
\<close>

theorem createUser_dangling_location:
  "(99::nat) \<notin> loc_id ` set (locations rwanda) \<and>
   createUser rwanda 14 zed =
     (rwanda\<lparr>users := users rwanda @
        [\<lparr>user_id = 14, user_name = ''Zed'', user_phone = ''0785'',
          user_email = ''zed@example.com'', user_role = ''Attend'', user_location = 99\<rparr>]\<rparr>,
      Success 201
        (\<lparr>user_id = 14, user_name = ''Zed'', user_phone = ''0785'',
           user_email = ''zed@example.com'', user_role = ''Attend'', user_location = 99\<rparr>, None))"
  by code_simp

section \<open>The access control chain on the venue routes\<close>

lemma User_findById_id: "User_findById us uid = Some u \<Longrightarrow> user_id u = uid \<and> u \<in> set us"
  by (auto simp: User_findById_def find_Some_iff)

lemma User_findById_None_iff: "User_findById us uid = None \<longleftrightarrow> uid \<notin> user_id ` set us"
  by (auto simp: User_findById_def find_None_iff)

lemma Venue_findById_id: "Venue_findById vs i = Some v \<Longrightarrow> venue_id v = i \<and> v \<in> set vs"
  by (auto simp: Venue_findById_def find_Some_iff)

lemma find_distinct_key:
  "distinct (map f xs) \<Longrightarrow> x \<in> set xs \<Longrightarrow> find (\<lambda>y. f y = f x) xs = Some x"
  by (induction xs) auto

lemma trim_nonempty: "trim s \<noteq> [] \<Longrightarrow> s \<noteq> []"
  by (auto simp: trim_def)

lemma authenticateUser_known:
  "User_findById (users st) uid = Some u \<Longrightarrow>
   authenticateUser st \<lparr>x_user_id = Some uid, params_id = p, req_user = None\<rparr> =
     Inr \<lparr>x_user_id = Some uid, params_id = p,
          req_user = Some (u, populate_location (locations st) (user_location u))\<rparr>"
  by (simp add: authenticateUser_def populate_user_def)

text \<open>
  Claim C7. Identity resolution: without the \<open>x-user-id\<close> header the request ends with
  401; with a header that is the id of no user it ends with 401; otherwise the user with
  that id, its location populated, is attached to the request, and the request goes on
  to the next step. On the venue routes that change venues, a request that ends here is
  answered 401 and leaves the store as it is.
\<close>

theorem authenticateUser_cases:
  "(x_user_id req = None \<longrightarrow>
      (authenticateUser st req :: 'a response + request) =
        Inl (Failure 401 ''Authentication required. Please provide x-user-id header'')) \<and>
   (x_user_id req = Some uid \<and> uid \<notin> user_id ` set (users st) \<longrightarrow>
      (authenticateUser st req :: 'a response + request) = Inl (Failure 401 ''Invalid user ID'')) \<and>
   (x_user_id req = Some uid \<and> uid \<in> user_id ` set (users st) \<longrightarrow>
      (\<exists>u \<in> set (users st). user_id u = uid \<and>
         (authenticateUser st req :: 'a response + request) =
           Inr (req\<lparr>req_user := Some (u, populate_location (locations st) (user_location u))\<rparr>))) \<and>
   (caller = None \<or> caller = Some uid \<and> uid \<notin> user_id ` set (users st) \<longrightarrow>
      fst (post_venue st caller new_id body) = st \<and>
      status (snd (post_venue st caller new_id body)) = 401 \<and>
      fst (put_venue st caller i body) = st \<and>
      status (snd (put_venue st caller i body)) = 401 \<and>
      fst (delete_venue st caller i) = st \<and>
      status (snd (delete_venue st caller i)) = 401)"
proof (intro conjI impI)
  assume "x_user_id req = None"
  then show "authenticateUser st req =
        Inl (Failure 401 ''Authentication required. Please provide x-user-id header'')"
    by (simp add: authenticateUser_def)
next
  assume a: "x_user_id req = Some uid \<and> uid \<notin> user_id ` set (users st)"
  then have "User_findById (users st) uid = None"
    by (simp add: User_findById_None_iff)
  with a show "authenticateUser st req = Inl (Failure 401 ''Invalid user ID'')"
    by (simp add: authenticateUser_def)
next
  assume a: "x_user_id req = Some uid \<and> uid \<in> user_id ` set (users st)"
  then obtain u where u: "User_findById (users st) uid = Some u"
    by (cases "User_findById (users st) uid") (auto simp: User_findById_None_iff)
  with a have "authenticateUser st req =
      Inr (req\<lparr>req_user := Some (u, populate_location (locations st) (user_location u))\<rparr>)"
    by (simp add: authenticateUser_def populate_user_def)
  with User_findById_id [OF u]
  show "\<exists>u \<in> set (users st). user_id u = uid \<and>
         authenticateUser st req =
           Inr (req\<lparr>req_user := Some (u, populate_location (locations st) (user_location u))\<rparr>)"
    by blast
next
  assume "caller = None \<or> caller = Some uid \<and> uid \<notin> user_id ` set (users st)"
  then have "caller = None \<or> caller = Some uid \<and> User_findById (users st) uid = None"
    by (simp add: User_findById_None_iff)
  then show "fst (post_venue st caller new_id body) = st"
    and "status (snd (post_venue st caller new_id body)) = 401"
    and "fst (put_venue st caller i body) = st"
    and "status (snd (put_venue st caller i body)) = 401"
    and "fst (delete_venue st caller i) = st"
    and "status (snd (delete_venue st caller i)) = 401"
    by (auto simp: post_venue_def put_venue_def delete_venue_def authenticateUser_def)
qed

theorem authenticateUser_cases_witness:
  "authenticateUser rwanda \<lparr>x_user_id = None, params_id = None, req_user = None\<rparr> =
     (Inl (Failure 401 ''Authentication required. Please provide x-user-id header'')
        :: unit response + request) \<and>
   (77::nat) \<notin> user_id ` set (users rwanda) \<and>
   authenticateUser rwanda \<lparr>x_user_id = Some 77, params_id = None, req_user = None\<rparr> =
     (Inl (Failure 401 ''Invalid user ID'') :: unit response + request) \<and>
   status (snd (delete_venue rwanda (Some 77) 20)) = 401 \<and>
   (13::nat) \<in> user_id ` set (users rwanda) \<and>
   authenticateUser rwanda \<lparr>x_user_id = Some 13, params_id = None, req_user = None\<rparr> =
     (Inr \<lparr>x_user_id = Some 13, params_id = None,
          req_user = Some (abel, Some \<lparr>ref_id = 3, ref_name = ''Kicukiro'', ref_code = ''KCK''\<rparr>)\<rparr>
        :: unit response + request)"
proof -
  let ?r = "\<lambda>h. \<lparr>x_user_id = h, params_id = None, req_user = None\<rparr>"
  let ?b = "\<lparr>vb_placeName = None, vb_capacity = None, vb_location = None\<rparr>"
  have a: "(77::nat) \<notin> user_id ` set (users rwanda)" by (simp add: example_defs)
  have b: "(13::nat) \<in> user_id ` set (users rwanda)" by (simp add: example_defs)
  from authenticateUser_cases [where ?'a = unit and req = "?r None" and st = rwanda and uid = 0
      and caller = None and new_id = 0 and i = 0 and body = ?b]
  have 1: "authenticateUser rwanda (?r None) =
     (Inl (Failure 401 ''Authentication required. Please provide x-user-id header'')
        :: unit response + request)" by simp
  from authenticateUser_cases [where ?'a = unit and req = "?r (Some 77)" and st = rwanda
      and uid = 77 and caller = "Some 77" and new_id = 0 and i = 20 and body = ?b] a
  have "authenticateUser rwanda (?r (Some 77)) =
     (Inl (Failure 401 ''Invalid user ID'') :: unit response + request) \<and>
     status (snd (delete_venue rwanda (Some 77) 20)) = 401" by simp
  then have 2: "authenticateUser rwanda (?r (Some 77)) =
     (Inl (Failure 401 ''Invalid user ID'') :: unit response + request)"
    and 4: "status (snd (delete_venue rwanda (Some 77) 20)) = 401" by (rule conjunct1, rule conjunct2)
  from authenticateUser_cases [where ?'a = unit and req = "?r (Some 13)" and st = rwanda
      and uid = 13 and caller = None and new_id = 0 and i = 0 and body = ?b] b
  have 3: "authenticateUser rwanda (?r (Some 13)) =
     (Inr \<lparr>x_user_id = Some 13, params_id = None,
          req_user = Some (abel, Some \<lparr>ref_id = 3, ref_name = ''Kicukiro'', ref_code = ''KCK''\<rparr>)\<rparr>
        :: unit response + request)"
    by (simp add: example_defs populate_location_def Location_findById_def)
  from 1 a 2 4 b 3 show ?thesis by (intro conjI)
qed

text \<open>
  Claim C5. Creating a venue, for a caller who is a stored user: a caller with role
  \<open>Attend\<close> is refused by the role gate with 403 and the store stays as it is; for a caller
  with role \<open>Admin\<close> or \<open>Organizer\<close> and a body whose place name is not blank, whose
  capacity is at least 1 and whose location is stored, the venue is appended to the store
  with the caller as \<open>createdBy\<close> and the answer is 201 with the populated venue.
\<close>

theorem post_venue_by_role:
  assumes "User_findById (users st) uid = Some u"
  shows "(user_role u = ''Attend'' \<longrightarrow>
            post_venue st (Some uid) new_id body =
              (st, Failure 403 ''Access denied. Required role(s): Admin, Organizer'')) \<and>
         ((user_role u = ''Admin'' \<or> user_role u = ''Organizer'') \<and>
          vb_placeName body = Some name \<and> trim name \<noteq> [] \<and>
          vb_capacity body = Some cap \<and> 1 \<le> cap \<and>
          vb_location body = Some loc \<and> loc \<in> loc_id ` set (locations st) \<longrightarrow>
            (let v = \<lparr>venue_id = new_id, placeName = trim name, capacity = cap,
                      venue_location = loc, createdBy = uid\<rparr>;
                 st' = st\<lparr>venues := venues st @ [v]\<rparr>
             in post_venue st (Some uid) new_id body = (st', Success 201 (populate_venue st' v))))"
proof (intro conjI impI)
  assume "user_role u = ''Attend''"
  with assms show "post_venue st (Some uid) new_id body =
              (st, Failure 403 ''Access denied. Required role(s): Admin, Organizer'')"
    by (simp add: post_venue_def authenticateUser_known requireRole_def)
next
  assume a: "(user_role u = ''Admin'' \<or> user_role u = ''Organizer'') \<and>
          vb_placeName body = Some name \<and> trim name \<noteq> [] \<and>
          vb_capacity body = Some cap \<and> 1 \<le> cap \<and>
          vb_location body = Some loc \<and> loc \<in> loc_id ` set (locations st)"
  then have ne: "name \<noteq> []" by (simp add: trim_nonempty)
  from a have loc: "Location_findById (locations st) loc \<noteq> None"
    by (simp add: findById_None_iff)
  from assms have uid: "user_id u = uid" by (simp add: User_findById_id)
  from a have role: "user_role u \<in> set [''Admin'', ''Organizer'']" by auto
  have gate: "requireRole [''Admin'', ''Organizer'']
        \<lparr>x_user_id = Some uid, params_id = None,
          req_user = Some (u, populate_location (locations st) (user_location u))\<rparr> =
      (Inr \<lparr>x_user_id = Some uid, params_id = None,
          req_user = Some (u, populate_location (locations st) (user_location u))\<rparr>
        :: populated_venue response + request)"
    using role by (simp add: requireRole_def)
  from a ne loc uid show "(let v = \<lparr>venue_id = new_id, placeName = trim name, capacity = cap,
                      venue_location = loc, createdBy = uid\<rparr>;
                 st' = st\<lparr>venues := venues st @ [v]\<rparr>
             in post_venue st (Some uid) new_id body = (st', Success 201 (populate_venue st' v)))"
    by (simp add: post_venue_def authenticateUser_known [OF assms] gate createVenue_def
        Venue_create_def Let_def)
qed

theorem post_venue_by_role_witness:
  "User_findById (users rwanda) 13 = Some abel \<and> user_role abel = ''Attend'' \<and>
   status (snd (post_venue rwanda (Some 13) 22
      \<lparr>vb_placeName = Some ''Club'', vb_capacity = Some 10, vb_location = Some 2\<rparr>)) = 403 \<and>
   User_findById (users rwanda) 11 = Some oscar \<and> user_role oscar = ''Organizer'' \<and>
   trim ''Club'' \<noteq> [] \<and> (2::nat) \<in> loc_id ` set (locations rwanda) \<and>
   status (snd (post_venue rwanda (Some 11) 22
      \<lparr>vb_placeName = Some ''Club'', vb_capacity = Some 10, vb_location = Some 2\<rparr>)) = 201"
proof -
  let ?body = "\<lparr>vb_placeName = Some ''Club'', vb_capacity = Some 10, vb_location = Some 2\<rparr>"
  have a: "User_findById (users rwanda) 13 = Some abel"
    by (simp add: example_defs User_findById_def)
  have o: "User_findById (users rwanda) 11 = Some oscar"
    by (simp add: example_defs User_findById_def)
  have ra: "user_role abel = ''Attend''" by (simp add: abel_def)
  have ro: "user_role oscar = ''Organizer''" by (simp add: oscar_def)
  have club: "trim ''Club'' \<noteq> []" by (simp add: trim_def is_space_def)
  have k: "(2::nat) \<in> loc_id ` set (locations rwanda)" by (simp add: example_defs)
  from post_venue_by_role [OF a, of 22 ?body] ra
  have no: "status (snd (post_venue rwanda (Some 13) 22 ?body)) = 403" by simp
  from post_venue_by_role [OF o, of 22 ?body "''Club''" 10 2] ro club k
  have yes: "status (snd (post_venue rwanda (Some 11) 22 ?body)) = 201"
    by (simp add: Let_def)
  from a ra no o ro club k yes show ?thesis by (intro conjI)
qed

section \<open>Ownership of venues\<close>

lemma checkVenueOwnership_Admin:
  "req_user req = Some (u, l) \<Longrightarrow> user_role u = ''Admin'' \<Longrightarrow> checkVenueOwnership st req = Inr req"
  by (simp add: checkVenueOwnership_def)

lemma deleteVenue_found:
  "Venue_findById (venues st) i = Some v \<Longrightarrow>
   deleteVenue st i =
     (st\<lparr>venues := delete_first (\<lambda>x. venue_id x = i) (venues st)\<rparr>,
      Success 200 (''Venue deleted successfully'', v))"
  by (simp add: deleteVenue_def Venue_findByIdAndDelete_def)

lemma deleteVenue_missing:
  "Venue_findById (venues st) i = None \<Longrightarrow> deleteVenue st i = (st, Failure 404 ''Venue not found'')"
  by (simp add: deleteVenue_def Venue_findByIdAndDelete_def)

lemma updateVenue_valid:
  assumes "Venue_findById (venues st) i = Some v"
    and "\<forall>n. vb_placeName body = Some n \<longrightarrow> trim n \<noteq> []"
    and "\<forall>c. vb_capacity body = Some c \<longrightarrow> 1 \<le> c"
    and "\<forall>loc. vb_location body = Some loc \<longrightarrow> loc \<in> loc_id ` set (locations st)"
  shows "status (snd (updateVenue st i body)) = 200"
proof -
  from assms(4) have "\<not> (case vb_location body of None \<Rightarrow> False
      | Some location \<Rightarrow> Location_findById (locations st) location = None)"
    by (auto simp: findById_None_iff split: option.splits)
  moreover from assms(2) have "map_option trim (vb_placeName body) \<noteq> Some []"
    by (cases "vb_placeName body") auto
  moreover from assms(3) have "\<not> (case vb_capacity body of None \<Rightarrow> False | Some c \<Rightarrow> c < 1)"
    by (cases "vb_capacity body") auto
  ultimately show ?thesis using assms(1)
    by (simp add: updateVenue_def Venue_findByIdAndUpdate_def Let_def)
qed

text \<open>
  The last part of claim C6 fails as it is written: passing the ownership gate is not
  the success of the request. An Admin who deletes a venue that is not in the store
  passes the gate and gets 404 from the controller.
\<close>

theorem admin_always_succeeds_counterexample:
  "\<not> (\<forall>st uid u i. User_findById (users st) uid = Some u \<and> user_role u = ''Admin'' \<longrightarrow>
         status (snd (delete_venue st (Some uid) i)) = 200)"
proof
  assume "\<forall>st uid u i. User_findById (users st) uid = Some u \<and> user_role u = ''Admin'' \<longrightarrow>
         status (snd (delete_venue st (Some uid) i)) = 200"
  then have "User_findById (users rwanda) 10 = Some alice \<and> user_role alice = ''Admin'' \<longrightarrow>
         status (snd (delete_venue rwanda (Some 10) 99)) = 200"
    by blast
  then show False
    by (simp add: example_defs User_findById_def delete_venue_def authenticateUser_def
        populate_user_def checkVenueOwnership_def deleteVenue_def Venue_findByIdAndDelete_def
        Venue_findById_def)
qed

text \<open>
  Claim C6, amended. For a caller who is a stored user: the ownership gate lets an Admin
  pass whatever the venue; for any other caller an update or delete request fails with
  404 when the venue is not stored and with 403 when it is stored with another
  \<open>createdBy\<close>; a request by an Admin or by the owner passes the gate and is answered by
  the controller, which deletes a stored venue with 200 (so the owner's delete always
  succeeds), answers 404 for a venue that is not stored, and updates a stored venue with
  200 when the fields of the body are valid.
\<close>

theorem venue_ownership_gate:
  assumes "User_findById (users st) uid = Some u"
  shows
   "(user_role u = ''Admin'' \<and> req_user req = Some (u, l) \<longrightarrow>
       checkVenueOwnership st req = Inr req) \<and>
    (user_role u \<noteq> ''Admin'' \<and> Venue_findById (venues st) i = None \<longrightarrow>
       put_venue st (Some uid) i body = (st, Failure 404 ''Venue not found'') \<and>
       delete_venue st (Some uid) i = (st, Failure 404 ''Venue not found'')) \<and>
    (user_role u \<noteq> ''Admin'' \<and> Venue_findById (venues st) i = Some v \<and> createdBy v \<noteq> uid \<longrightarrow>
       put_venue st (Some uid) i body =
         (st, Failure 403 ''Access denied. You can only modify venues you created'') \<and>
       delete_venue st (Some uid) i =
         (st, Failure 403 ''Access denied. You can only modify venues you created'')) \<and>
    (user_role u = ''Admin'' \<or> (Venue_findById (venues st) i = Some v \<and> createdBy v = uid) \<longrightarrow>
       put_venue st (Some uid) i body = updateVenue st i body \<and>
       delete_venue st (Some uid) i = deleteVenue st i) \<and>
    (Venue_findById (venues st) i = Some v \<longrightarrow>
       deleteVenue st i =
         (st\<lparr>venues := delete_first (\<lambda>x. venue_id x = i) (venues st)\<rparr>,
          Success 200 (''Venue deleted successfully'', v))) \<and>
    (Venue_findById (venues st) i = None \<longrightarrow>
       deleteVenue st i = (st, Failure 404 ''Venue not found'')) \<and>
    (Venue_findById (venues st) i = Some v \<and>
     (\<forall>n. vb_placeName body = Some n \<longrightarrow> trim n \<noteq> []) \<and>
     (\<forall>c. vb_capacity body = Some c \<longrightarrow> 1 \<le> c) \<and>
     (\<forall>loc. vb_location body = Some loc \<longrightarrow> loc \<in> loc_id ` set (locations st)) \<longrightarrow>
       status (snd (updateVenue st i body)) = 200)"
proof -
  note auth = authenticateUser_known [OF assms]
  from assms have uid: "user_id u = uid" by (simp add: User_findById_id)
  let ?req = "\<lparr>x_user_id = Some uid, params_id = Some i,
      req_user = Some (u, populate_location (locations st) (user_location u))\<rparr>"
  have other: "checkVenueOwnership st ?req =
     (case Venue_findById (venues st) i of
        None \<Rightarrow> Inl (Failure 404 ''Venue not found'')
      | Some v \<Rightarrow>
          if createdBy v \<noteq> user_id u
          then Inl (Failure 403 ''Access denied. You can only modify venues you created'')
          else Inr ?req)" if "user_role u \<noteq> ''Admin''"
    using that by (simp add: checkVenueOwnership_def)
  have admin: "checkVenueOwnership st ?req = Inr ?req" if "user_role u = ''Admin''"
    using that by (simp add: checkVenueOwnership_Admin)
  have 1: "user_role u = ''Admin'' \<and> req_user req = Some (u, l) \<longrightarrow>
       checkVenueOwnership st req = Inr req"
    by (simp add: checkVenueOwnership_Admin)
  have 2: "user_role u \<noteq> ''Admin'' \<and> Venue_findById (venues st) i = None \<longrightarrow>
       put_venue st (Some uid) i body = (st, Failure 404 ''Venue not found'') \<and>
       delete_venue st (Some uid) i = (st, Failure 404 ''Venue not found'')"
    by (simp add: put_venue_def delete_venue_def auth other uid)
  have 3: "user_role u \<noteq> ''Admin'' \<and> Venue_findById (venues st) i = Some v \<and> createdBy v \<noteq> uid \<longrightarrow>
       put_venue st (Some uid) i body =
         (st, Failure 403 ''Access denied. You can only modify venues you created'') \<and>
       delete_venue st (Some uid) i =
         (st, Failure 403 ''Access denied. You can only modify venues you created'')"
    by (simp add: put_venue_def delete_venue_def auth other uid)
  have 4: "user_role u = ''Admin'' \<or> (Venue_findById (venues st) i = Some v \<and> createdBy v = uid) \<longrightarrow>
       put_venue st (Some uid) i body = updateVenue st i body \<and>
       delete_venue st (Some uid) i = deleteVenue st i"
    by (cases "user_role u = ''Admin''") (auto simp: put_venue_def delete_venue_def auth other admin uid)
  have 5: "Venue_findById (venues st) i = Some v \<longrightarrow>
       deleteVenue st i =
         (st\<lparr>venues := delete_first (\<lambda>x. venue_id x = i) (venues st)\<rparr>,
          Success 200 (''Venue deleted successfully'', v))"
    by (simp add: deleteVenue_found)
  have 6: "Venue_findById (venues st) i = None \<longrightarrow>
       deleteVenue st i = (st, Failure 404 ''Venue not found'')"
    by (simp add: deleteVenue_missing)
  have 7: "Venue_findById (venues st) i = Some v \<and>
     (\<forall>n. vb_placeName body = Some n \<longrightarrow> trim n \<noteq> []) \<and>
     (\<forall>c. vb_capacity body = Some c \<longrightarrow> 1 \<le> c) \<and>
     (\<forall>loc. vb_location body = Some loc \<longrightarrow> loc \<in> loc_id ` set (locations st)) \<longrightarrow>
       status (snd (updateVenue st i body)) = 200"
    using updateVenue_valid [of st i v body] by blast
  from 1 2 3 4 5 6 7 show ?thesis by (intro conjI)
qed

theorem venue_ownership_gate_witness:
  "User_findById (users rwanda) 10 = Some alice \<and> user_role alice = ''Admin'' \<and>
   User_findById (users rwanda) 12 = Some olive \<and> user_role olive \<noteq> ''Admin'' \<and>
   Venue_findById (venues rwanda) 99 = None \<and>
   Venue_findById (venues rwanda) 20 = Some arena \<and> createdBy arena \<noteq> 12 \<and>
   Venue_findById (venues rwanda) 21 = Some hall \<and> createdBy hall = 12 \<and>
   delete_venue rwanda (Some 12) 99 = (rwanda, Failure 404 ''Venue not found'') \<and>
   delete_venue rwanda (Some 12) 20 =
     (rwanda, Failure 403 ''Access denied. You can only modify venues you created'') \<and>
   delete_venue rwanda (Some 12) 21 =
     (rwanda\<lparr>venues := [arena]\<rparr>, Success 200 (''Venue deleted successfully'', hall)) \<and>
   delete_venue rwanda (Some 10) 20 =
     (rwanda\<lparr>venues := [hall]\<rparr>, Success 200 (''Venue deleted successfully'', arena)) \<and>
   delete_venue rwanda (Some 10) 99 = (rwanda, Failure 404 ''Venue not found'')"
proof -
  let ?b = "\<lparr>vb_placeName = None, vb_capacity = None, vb_location = None\<rparr>"
  have al: "User_findById (users rwanda) 10 = Some alice"
    and ol: "User_findById (users rwanda) 12 = Some olive"
    by (simp_all add: example_defs User_findById_def)
  have ra: "user_role alice = ''Admin''" and ro: "user_role olive \<noteq> ''Admin''"
    by (simp_all add: example_defs)
  have v99: "Venue_findById (venues rwanda) 99 = None"
    and v20: "Venue_findById (venues rwanda) 20 = Some arena"
    and v21: "Venue_findById (venues rwanda) 21 = Some hall"
    by (simp_all add: example_defs Venue_findById_def)
  have c20: "createdBy arena \<noteq> 12" and c21: "createdBy hall = 12"
    by (simp_all add: example_defs)
  have d20: "delete_first (\<lambda>x. venue_id x = 20) (venues rwanda) = [hall]"
    and d21: "delete_first (\<lambda>x. venue_id x = 21) (venues rwanda) = [arena]"
    by (simp_all add: example_defs)
  from venue_ownership_gate [OF ol, where i = 99 and body = ?b and l = None and req = "\<lparr>x_user_id = None, params_id = None, req_user = None\<rparr>"] ro v99
  have 1: "delete_venue rwanda (Some 12) 99 = (rwanda, Failure 404 ''Venue not found'')"
    by simp
  from venue_ownership_gate [OF ol, where i = 20 and body = ?b and l = None and req = "\<lparr>x_user_id = None, params_id = None, req_user = None\<rparr>" and v = arena] ro v20 c20
  have 2: "delete_venue rwanda (Some 12) 20 =
     (rwanda, Failure 403 ''Access denied. You can only modify venues you created'')"
    by simp
  from venue_ownership_gate [OF ol, where i = 21 and body = ?b and l = None and req = "\<lparr>x_user_id = None, params_id = None, req_user = None\<rparr>" and v = hall] v21 c21
  have 3: "delete_venue rwanda (Some 12) 21 =
     (rwanda\<lparr>venues := [arena]\<rparr>, Success 200 (''Venue deleted successfully'', hall))"
    by (simp add: d21)
  from venue_ownership_gate [OF al, where i = 20 and body = ?b and l = None and req = "\<lparr>x_user_id = None, params_id = None, req_user = None\<rparr>" and v = arena] ra v20
  have 4: "delete_venue rwanda (Some 10) 20 =
     (rwanda\<lparr>venues := [hall]\<rparr>, Success 200 (''Venue deleted successfully'', arena))"
    by (simp add: d20)
  from venue_ownership_gate [OF al, where i = 99 and body = ?b and l = None and req = "\<lparr>x_user_id = None, params_id = None, req_user = None\<rparr>"] ra v99
  have 5: "delete_venue rwanda (Some 10) 99 = (rwanda, Failure 404 ''Venue not found'')"
    by simp
  from al ra ol ro v99 v20 c20 v21 c21 1 2 3 4 5 show ?thesis by (intro conjI)
qed

section \<open>The creator of a venue\<close>

lemma map_update_first:
  "find P xs = Some old \<Longrightarrow> f y = f old \<Longrightarrow> map f (update_first P y xs) = map f xs"
  by (induction xs) (auto split: if_splits)

lemma Venue_findByIdAndUpdate_keeps:
  assumes "Venue_findByIdAndUpdate vs i name cap loc = Inr (vs', r)"
  shows "map createdBy vs' = map createdBy vs \<and> map venue_id vs' = map venue_id vs \<and>
         (\<forall>v'. r = Some v' \<longrightarrow>
            (\<exists>v. Venue_findById vs i = Some v \<and> createdBy v' = createdBy v \<and> venue_id v' = i))"
proof (cases "Venue_findById vs i")
  case None
  with assms show ?thesis
    by (auto simp: Venue_findByIdAndUpdate_def Let_def split: if_splits)
next
  case (Some old)
  then have f: "find (\<lambda>v. venue_id v = i) vs = Some old" by (simp add: Venue_findById_def)
  from Some have i: "venue_id old = i" by (simp add: Venue_findById_id)
  define doc where "doc = old\<lparr>placeName := or_keep (map_option trim name) (placeName old),
      capacity := or_keep cap (capacity old),
      venue_location := or_keep loc (venue_location old)\<rparr>"
  have same: "createdBy doc = createdBy old" "venue_id doc = venue_id old"
    by (simp_all add: doc_def)
  from assms Some have res: "vs' = update_first (\<lambda>v. venue_id v = i) doc vs" "r = Some doc"
    by (auto simp: Venue_findByIdAndUpdate_def Let_def doc_def split: if_splits)
  from f same(1) have "map createdBy vs' = map createdBy vs"
    unfolding res by (rule map_update_first)
  moreover from f same(2) have "map venue_id vs' = map venue_id vs"
    unfolding res by (rule map_update_first)
  ultimately show ?thesis using Some same i res(2) by simp
qed

text \<open>
  Claim C9. \<open>updateVenue\<close> changes the \<open>createdBy\<close> of no venue, whatever the id and the
  body: the venues of the store keep their ids and creators in order, and the venue that
  a successful update returns has the creator it had before. \<open>createVenue\<close> sets
  \<open>createdBy\<close> to the id of the authenticated caller.
\<close>

theorem updateVenue_keeps_createdBy:
  "map createdBy (venues (fst (updateVenue st i body))) = map createdBy (venues st) \<and>
   map venue_id (venues (fst (updateVenue st i body))) = map venue_id (venues st) \<and>
   (\<forall>v' l c. snd (updateVenue st i body) = Success 200 (v', l, c) \<longrightarrow>
      (\<exists>v. Venue_findById (venues st) i = Some v \<and> createdBy v' = createdBy v)) \<and>
   (\<forall>caller cl new_id st' v l c.
      req_user req = Some (caller, cl) \<and>
      createVenue st req new_id body = (st', Success 201 (v, l, c)) \<longrightarrow>
      createdBy v = user_id caller \<and> venues st' = venues st @ [v])"
proof -
  have upd: "map createdBy (venues (fst (updateVenue st i body))) = map createdBy (venues st) \<and>
      map venue_id (venues (fst (updateVenue st i body))) = map venue_id (venues st) \<and>
      (\<forall>v' l c. snd (updateVenue st i body) = Success 200 (v', l, c) \<longrightarrow>
        (\<exists>v. Venue_findById (venues st) i = Some v \<and> createdBy v' = createdBy v))"
  proof (cases "Venue_findByIdAndUpdate (venues st) i (vb_placeName body) (vb_capacity body)
                   (vb_location body)")
    case (Inl e)
    then show ?thesis
      by (cases e) (simp_all add: updateVenue_def)
  next
    case (Inr p)
    obtain vs' r where p: "p = (vs', r)" by (cases p)
    from Venue_findByIdAndUpdate_keeps [OF Inr [unfolded p]] Inr p show ?thesis
      by (cases r) (auto simp: updateVenue_def populate_venue_def)
  qed
  have cre: "createdBy v = user_id caller \<and> venues st' = venues st @ [v]"
    if "req_user req = Some (caller, cl) \<and>
        createVenue st req new_id body = (st', Success 201 (v, l, c))"
    for caller cl new_id st' v l c
    using that
    by (auto simp: createVenue_def Venue_create_def populate_venue_def Let_def
        split: option.splits if_splits)
  from upd cre show ?thesis by blast
qed

theorem updateVenue_keeps_createdBy_witness:
  "map createdBy (venues (fst (updateVenue rwanda 20
      \<lparr>vb_placeName = Some ''Stadium'', vb_capacity = Some 900, vb_location = Some 2\<rparr>))) = [11, 12] \<and>
   snd (updateVenue rwanda 20
      \<lparr>vb_placeName = Some ''Stadium'', vb_capacity = Some 900, vb_location = Some 2\<rparr>) =
     Success 200 (\<lparr>venue_id = 20, placeName = ''Stadium'', capacity = 900, venue_location = 2,
                    createdBy = 11\<rparr>,
                  populate_location (locations rwanda) 2, populate_creator (users rwanda) 11) \<and>
   Venue_findById (venues rwanda) 20 = Some arena \<and> createdBy arena = 11 \<and>
   (\<exists>st' v l c.
      createVenue rwanda \<lparr>x_user_id = Some 12, params_id = None, req_user = Some (olive, None)\<rparr> 22
        \<lparr>vb_placeName = Some ''Stadium'', vb_capacity = Some 900, vb_location = Some 2\<rparr> =
        (st', Success 201 (v, l, c)) \<and>
      createdBy v = 12 \<and> venues st' = [arena, hall, v])"
proof -
  let ?body = "\<lparr>vb_placeName = Some ''Stadium'', vb_capacity = Some 900, vb_location = Some 2\<rparr>"
  let ?req = "\<lparr>x_user_id = Some 12, params_id = None, req_user = Some (olive, None)\<rparr>"
  note inst = updateVenue_keeps_createdBy [of rwanda 20 ?body ?req]
  have run: "snd (updateVenue rwanda 20 ?body) =
     Success 200 (\<lparr>venue_id = 20, placeName = ''Stadium'', capacity = 900, venue_location = 2,
                    createdBy = 11\<rparr>,
                  populate_location (locations rwanda) 2, populate_creator (users rwanda) 11)"
    by (simp add: example_defs updateVenue_def Venue_findByIdAndUpdate_def Venue_findById_def
        Location_findById_def populate_venue_def trim_def is_space_def or_keep_def Let_def)
  have old: "map createdBy (venues rwanda) = [11, 12]" by (simp add: example_defs)
  from inst old
  have kept: "map createdBy (venues (fst (updateVenue rwanda 20 ?body))) = [11, 12]" by simp
  from inst run
  obtain v where "Venue_findById (venues rwanda) 20 = Some v" "createdBy v = 11" by force
  moreover have "Venue_findById (venues rwanda) 20 = Some arena"
    by (simp add: example_defs Venue_findById_def)
  ultimately have found: "Venue_findById (venues rwanda) 20 = Some arena \<and> createdBy arena = 11"
    by simp
  obtain st' v l c where cr: "createVenue rwanda ?req 22 ?body = (st', Success 201 (v, l, c))"
    by (simp add: example_defs createVenue_def Venue_create_def Location_findById_def
        populate_venue_def trim_def is_space_def Let_def)
  have "req_user ?req = Some (olive, None)" by simp
  with inst cr have "createdBy v = user_id olive \<and> venues st' = venues rwanda @ [v]" by blast
  then have "createdBy v = 12 \<and> venues st' = [arena, hall, v]"
    by (simp add: olive_def rwanda_def)
  with cr have "\<exists>st' v l c. createVenue rwanda ?req 22 ?body = (st', Success 201 (v, l, c)) \<and>
      createdBy v = 12 \<and> venues st' = [arena, hall, v]" by blast
  with kept run found show ?thesis by (intro conjI) simp_all
qed

section \<open>Deleting a location\<close>

lemma delete_first_distinct:
  "distinct (map f xs) \<Longrightarrow> x \<in> set xs \<Longrightarrow>
   set (delete_first (\<lambda>y. f y = f x) xs) = set xs - {x} \<and>
   f x \<notin> f ` set (delete_first (\<lambda>y. f y = f x) xs)"
  by (induction xs) (auto simp: image_iff)

text \<open>
  Claim C8. For a location \<open>l\<close> of the store: when some location has \<open>l\<close> as parent,
  deleting \<open>l\<close> fails with 400 and the store stays as it is; when none has, deleting \<open>l\<close>
  succeeds with 200, and afterwards the store holds the other locations and no location
  with the id of \<open>l\<close>.
\<close>

theorem deleteLocation_children:
  assumes "l \<in> set (locations st)" and "distinct (map loc_id (locations st))"
  shows "((\<exists>c \<in> set (locations st). loc_parent c = Some (loc_id l)) \<longrightarrow>
            deleteLocation st (loc_id l) =
              (st, Failure 400 ''Cannot delete location with child locations'')) \<and>
         (\<not> (\<exists>c \<in> set (locations st). loc_parent c = Some (loc_id l)) \<longrightarrow>
            (\<exists>locs'. deleteLocation st (loc_id l) =
                 (st\<lparr>locations := locs'\<rparr>, Success 200 (''Location deleted successfully'', l)) \<and>
               set locs' = set (locations st) - {l} \<and> loc_id l \<notin> loc_id ` set locs'))"
proof (intro conjI impI)
  assume "\<exists>c \<in> set (locations st). loc_parent c = Some (loc_id l)"
  then have "Location_find_parent (locations st) (loc_id l) \<noteq> []"
    by (auto simp: Location_find_parent_def filter_empty_conv)
  then show "deleteLocation st (loc_id l) =
              (st, Failure 400 ''Cannot delete location with child locations'')"
    by (simp add: deleteLocation_def Location_countDocuments_parent_def)
next
  assume "\<not> (\<exists>c \<in> set (locations st). loc_parent c = Some (loc_id l))"
  then have none: "Location_find_parent (locations st) (loc_id l) = []"
    by (auto simp: Location_find_parent_def filter_empty_conv)
  from assms have found: "Location_findById (locations st) (loc_id l) = Some l"
    unfolding Location_findById_def by (simp add: find_distinct_key)
  let ?locs' = "delete_first (\<lambda>y. loc_id y = loc_id l) (locations st)"
  from none found have "deleteLocation st (loc_id l) =
      (st\<lparr>locations := ?locs'\<rparr>, Success 200 (''Location deleted successfully'', l))"
    by (simp add: deleteLocation_def Location_countDocuments_parent_def
        Location_findByIdAndDelete_def)
  with delete_first_distinct [OF assms(2,1)]
  show "\<exists>locs'. deleteLocation st (loc_id l) =
                 (st\<lparr>locations := locs'\<rparr>, Success 200 (''Location deleted successfully'', l)) \<and>
               set locs' = set (locations st) - {l} \<and> loc_id l \<notin> loc_id ` set locs'"
    by blast
qed

theorem deleteLocation_children_witness:
  "kigali \<in> set (locations rwanda) \<and> kicukiro \<in> set (locations rwanda) \<and>
   distinct (map loc_id (locations rwanda)) \<and>
   loc_parent kicukiro = Some (loc_id kigali) \<and>
   deleteLocation rwanda 2 = (rwanda, Failure 400 ''Cannot delete location with child locations'') \<and>
   Location_find_parent (locations rwanda) 3 = [] \<and>
   deleteLocation rwanda 3 =
     (rwanda\<lparr>locations := [rw, kigali]\<rparr>, Success 200 (''Location deleted successfully'', kicukiro))"
proof -
  have k: "kigali \<in> set (locations rwanda)" and c: "kicukiro \<in> set (locations rwanda)"
    by (simp_all add: rwanda_def)
  have p: "loc_parent kicukiro = Some (loc_id kigali)" by (simp add: example_defs)
  have n: "Location_find_parent (locations rwanda) 3 = []"
    by (simp add: example_defs Location_find_parent_def)
  have i2: "loc_id kigali = 2" and i3: "loc_id kicukiro = 3" by (simp_all add: example_defs)
  from deleteLocation_children [OF k rwanda_distinct] c p
  have 1: "deleteLocation rwanda 2 =
      (rwanda, Failure 400 ''Cannot delete location with child locations'')"
    unfolding i2 by blast
  have nochild: "\<not> (\<exists>x \<in> set (locations rwanda). loc_parent x = Some (loc_id kicukiro))"
    by (simp add: example_defs)
  from deleteLocation_children [OF c rwanda_distinct] nochild
  obtain locs' where d: "deleteLocation rwanda 3 =
      (rwanda\<lparr>locations := locs'\<rparr>, Success 200 (''Location deleted successfully'', kicukiro))"
    unfolding i3 by blast
  have "deleteLocation rwanda 3 =
     (rwanda\<lparr>locations := [rw, kigali]\<rparr>, Success 200 (''Location deleted successfully'', kicukiro))"
    using d by (simp add: example_defs deleteLocation_def Location_countDocuments_parent_def
        Location_find_parent_def Location_findByIdAndDelete_def Location_findById_def)
  with k c rwanda_distinct p 1 n show ?thesis by (intro conjI)
qed

end
